theory Spec2Isabelle
  imports Complex_Main
begin

section \<open>Reconciliation agent: FX markup, FX context, matching and card ageing\<close>

text \<open>
  \<open>None\<close> is \<open>None\<close>, an exception is the left summand of the result, a Python
  \<open>str\<close> is the list of its code points.
\<close>

datatype py_error = ZeroDivisionError | OverflowError | KeyError | ValueError

type_synonym ustr = "int list"

text \<open>An ASCII literal as a \<open>str\<close>.\<close>

definition ascii :: "string \<Rightarrow> ustr" where
  "ascii s = map of_char s"

subsection \<open>Python floats\<close>

text \<open>
  The sources compute with \<open>float\<close>. The arithmetic of the machine is not part of
  the repository, so the float operations the code calls are parameters: \<open>'f\<close> is
  the type of float values (\<open>nan\<close> and the infinities among them), and a
  \<open>float_ops\<close> gives the truth test \<open>x == 0.0\<close>, the products, differences and
  quotients as the machine rounds them, \<open>round(x, 2)\<close>, \<open>abs\<close>, \<open>>\<close> and the
  literal \<open>100\<close>. On floats only the division raises, when the divisor is zero.
\<close>

record 'f float_ops =
  f_is_zero :: "'f \<Rightarrow> bool"
  f_mul :: "'f \<Rightarrow> 'f \<Rightarrow> 'f"
  f_sub :: "'f \<Rightarrow> 'f \<Rightarrow> 'f"
  f_div :: "'f \<Rightarrow> 'f \<Rightarrow> 'f"
  f_round2 :: "'f \<Rightarrow> 'f"
  f_abs :: "'f \<Rightarrow> 'f"
  f_gt :: "'f \<Rightarrow> 'f \<Rightarrow> bool"
  f_hundred :: "'f"

definition py_truediv :: "'f float_ops \<Rightarrow> 'f \<Rightarrow> 'f \<Rightarrow> py_error + 'f" where
  "py_truediv ops a b = (if f_is_zero ops b then Inl ZeroDivisionError else Inr (f_div ops a b))"

text \<open>
  Exact arithmetic on rationals, for the examples: \<open>round(x, 2)\<close> goes to the nearest
  hundredth, a tie to the even neighbour. The examples are chosen so that every
  intermediate value is exact in binary floating point or far from a tie.
\<close>

definition round_half_even :: "rat \<Rightarrow> int" where
  "round_half_even x =
     (let f = \<lfloor>x\<rfloor>; r = x - of_int f
      in if r < 1 / 2 then f
         else if 1 / 2 < r then f + 1
         else if even f then f else f + 1)"

definition py_round2 :: "rat \<Rightarrow> rat" where
  "py_round2 x = of_int (round_half_even (x * 100)) / 100"

definition exact_gt :: "rat \<Rightarrow> rat \<Rightarrow> bool" where
  "exact_gt a b = (b < a)"

definition exact_is_zero :: "rat \<Rightarrow> bool" where
  "exact_is_zero x = (x = 0)"

definition exact_ops :: "rat float_ops" where
  "exact_ops =
     \<lparr>f_is_zero = exact_is_zero, f_mul = times, f_sub = minus, f_div = divide,
      f_round2 = py_round2, f_abs = abs, f_gt = exact_gt, f_hundred = 100\<rparr>"

subsection \<open>markup\_analyzer.py\<close>

datatype markup_status = SKIPPED | BYPASS | FLAGGED | OK

text \<open>
  A reason is an f-string: literal text with numbers filled in. The pieces are kept apart,
  so that the text does not depend on how Python prints a float.
\<close>

datatype 'f piece = Lit ustr | Num 'f

record 'f MarkupResult =
  is_flagged :: bool
  markup_pct :: "'f option"
  inr_diff :: "'f option"
  status :: markup_status
  reason :: "'f piece list"

text \<open>The fallback \<open>SETTINGS\<close> of markup\_analyzer.py.\<close>

definition DEFAULT_FX_MARKUP_TOL :: rat where
  "DEFAULT_FX_MARKUP_TOL = 5 / 2"

definition DEFAULT_FX_INR_TOL :: rat where
  "DEFAULT_FX_INR_TOL = 100"

text \<open>
  \<open>fx_context\<close> is an optional dict; the analyzer reads the key \<open>is_dcc\<close> only.
  \<open>fx_context and fx_context.get("is_dcc")\<close>: a missing or empty dict is falsy, a
  missing key reads as \<open>None\<close>.
\<close>

type_synonym fx_context_dict = "(string \<times> bool) list"

definition ctx_is_dcc :: "fx_context_dict option \<Rightarrow> bool" where
  "ctx_is_dcc fx_context =
     (case fx_context of
        None \<Rightarrow> False
      | Some d \<Rightarrow> d \<noteq> [] \<and> (case map_of d ''is_dcc'' of None \<Rightarrow> False | Some b \<Rightarrow> b))"

text \<open>\<open>"; ".join(reasons)\<close>\<close>

fun join_reasons :: "'f piece list list \<Rightarrow> 'f piece list" where
  "join_reasons [] = []"
| "join_reasons [r] = r"
| "join_reasons (r # rs) = r @ [Lit (ascii ''; '')] @ join_reasons rs"

text \<open>The rupee sign of the reason text, U+20B9.\<close>

definition rupee :: ustr where
  "rupee = [0x20B9]"

definition markup_reason :: "'f \<Rightarrow> 'f \<Rightarrow> 'f piece list" where
  "markup_reason markup FX_MARKUP_TOL =
     [Lit (ascii ''Markup ''), Num markup, Lit (ascii ''% exceeds ''), Num FX_MARKUP_TOL,
      Lit (ascii ''%'')]"

definition inr_reason :: "'f float_ops \<Rightarrow> 'f \<Rightarrow> 'f \<Rightarrow> 'f piece list" where
  "inr_reason ops diff FX_INR_TOL =
     [Lit (ascii ''INR difference '' @ rupee), Num (f_abs ops diff),
      Lit (ascii '' exceeds '' @ rupee), Num FX_INR_TOL]"

definition skipped_result :: "'f MarkupResult" where
  "skipped_result =
     \<lparr>is_flagged = False, markup_pct = None, inr_diff = None, status = SKIPPED,
      reason = [Lit (ascii ''Missing core values for analysis'')]\<rparr>"

definition bypass_result :: "'f MarkupResult" where
  "bypass_result =
     \<lparr>is_flagged = False, markup_pct = None, inr_diff = None, status = BYPASS,
      reason = [Lit (ascii ''DCC transaction detected, markup check not applicable'')]\<rparr>"

text \<open>
  Lines 75 to 100 of \<open>analyze_markup\<close>: the arithmetic, in the order of the source,
  and the two threshold checks, on the three numbers once they are known to be there.
\<close>

definition markup_checks ::
  "'f float_ops \<Rightarrow> 'f \<Rightarrow> 'f \<Rightarrow> 'f \<Rightarrow> 'f \<Rightarrow> 'f \<Rightarrow> py_error + 'f MarkupResult" where
  "markup_checks ops FX_MARKUP_TOL FX_INR_TOL fa ci ir =
     (let expected_inr = f_mul ops fa ir;
          diff = f_round2 ops (f_sub ops ci expected_inr)
      in case py_truediv ops ci fa of
           Inl e \<Rightarrow> Inl e
         | Inr actual_rate \<Rightarrow>
             (case py_truediv ops (f_sub ops actual_rate ir) ir of
                Inl e \<Rightarrow> Inl e
              | Inr q \<Rightarrow>
                  (let markup = f_round2 ops (f_mul ops q (f_hundred ops));
                       is_markup_exceeded = f_gt ops markup FX_MARKUP_TOL;
                       is_inr_diff_exceeded = f_gt ops (f_abs ops diff) FX_INR_TOL
                   in if is_markup_exceeded \<or> is_inr_diff_exceeded then
                        Inr \<lparr>is_flagged = True, markup_pct = Some markup,
                             inr_diff = Some diff, status = FLAGGED,
                             reason = join_reasons
                               ((if is_markup_exceeded
                                 then [markup_reason markup FX_MARKUP_TOL] else []) @
                                (if is_inr_diff_exceeded
                                 then [inr_reason ops diff FX_INR_TOL] else []))\<rparr>
                      else
                        Inr \<lparr>is_flagged = False, markup_pct = Some markup,
                             inr_diff = Some diff, status = OK,
                             reason = [Lit (ascii ''Within thresholds'')]\<rparr>)))"

text \<open>
  \<open>analyze_markup\<close>. \<open>FX_MARKUP_TOL\<close> and \<open>FX_INR_TOL\<close> are the module constants
  read from the configuration. \<open>not x\<close> on an \<open>Optional[float]\<close> holds for \<open>None\<close>
  and for a zero.
\<close>

definition analyze_markup ::
  "'f float_ops \<Rightarrow> 'f \<Rightarrow> 'f \<Rightarrow> 'f option \<Rightarrow> 'f option \<Rightarrow> 'f option \<Rightarrow>
     fx_context_dict option \<Rightarrow> py_error + 'f MarkupResult" where
  "analyze_markup ops FX_MARKUP_TOL FX_INR_TOL foreign_amount charged_inr interbank_rate fx_context =
     (case (foreign_amount, charged_inr, interbank_rate) of
        (Some fa, Some ci, Some ir) \<Rightarrow>
          if f_is_zero ops fa \<or> f_is_zero ops ci \<or> f_is_zero ops ir then Inr skipped_result
          else if ctx_is_dcc fx_context then Inr bypass_result
          else markup_checks ops FX_MARKUP_TOL FX_INR_TOL fa ci ir
      | _ \<Rightarrow> Inr skipped_result)"

text \<open>A value that is there and is zero.\<close>

definition is_zero_value :: "'f float_ops \<Rightarrow> 'f option \<Rightarrow> bool" where
  "is_zero_value ops v = (case v of None \<Rightarrow> False | Some x \<Rightarrow> f_is_zero ops x)"

text \<open>
  The specification's reading of "missing": an input is absent, or the foreign amount is
  zero.
\<close>

definition spec_missing :: "'f float_ops \<Rightarrow> 'f option \<Rightarrow> 'f option \<Rightarrow> 'f option \<Rightarrow> bool" where
  "spec_missing ops foreign_amount charged_inr interbank_rate =
     (foreign_amount = None \<or> is_zero_value ops foreign_amount \<or> charged_inr = None \<or>
      interbank_rate = None)"

text \<open>What the guard of line 56 tests: an input is \<open>None\<close> or zero.\<close>

definition falsy :: "'f float_ops \<Rightarrow> 'f option \<Rightarrow> bool" where
  "falsy ops v = (v = None \<or> is_zero_value ops v)"

subsection \<open>Text\<close>

text \<open>
  The Unicode character database is not part of the repository. What the code asks of it
  beyond ASCII is a parameter: whether a code point from 128 on is alphanumeric
  (\<open>str.isalnum\<close>), and the upper and lower case of a string that has such a code
  point. On ASCII the functions are written out.
\<close>

record unicode_db =
  isalnum_ext :: "int \<Rightarrow> bool"
  upper_ext :: "ustr \<Rightarrow> ustr"
  lower_ext :: "ustr \<Rightarrow> ustr"

definition is_ascii :: "ustr \<Rightarrow> bool" where
  "is_ascii s = list_all (\<lambda>c. c < 128) s"

definition ascii_upper :: "int \<Rightarrow> int" where
  "ascii_upper c = (if 97 \<le> c \<and> c \<le> 122 then c - 32 else c)"

definition ascii_lower :: "int \<Rightarrow> int" where
  "ascii_lower c = (if 65 \<le> c \<and> c \<le> 90 then c + 32 else c)"

definition upper :: "unicode_db \<Rightarrow> ustr \<Rightarrow> ustr" where
  "upper db s = (if is_ascii s then map ascii_upper s else upper_ext db s)"

definition lower :: "unicode_db \<Rightarrow> ustr \<Rightarrow> ustr" where
  "lower db s = (if is_ascii s then map ascii_lower s else lower_ext db s)"

fun starts_with :: "ustr \<Rightarrow> ustr \<Rightarrow> bool" where
  "starts_with [] t = True"
| "starts_with (p # ps) [] = False"
| "starts_with (p # ps) (c # cs) = (p = c \<and> starts_with ps cs)"

text \<open>\<open>contains t p\<close> is Python's \<open>p in t\<close>.\<close>

fun contains :: "ustr \<Rightarrow> ustr \<Rightarrow> bool" where
  "contains [] p = (p = [])"
| "contains (c # cs) p = (starts_with p (c # cs) \<or> contains cs p)"

subsection \<open>The DCC patterns as data\<close>

text \<open>
  \<open>\s\<close> on a \<open>str\<close> pattern is \<open>str.isspace\<close>: the ASCII white space with the
  four separators U+001C to U+001F, and U+0085, U+00A0, U+1680, U+2000 to U+200A,
  U+2028, U+2029, U+202F, U+205F, U+3000.
\<close>

definition is_space :: "int \<Rightarrow> bool" where
  "is_space c =
     ((9 \<le> c \<and> c \<le> 13) \<or> (28 \<le> c \<and> c \<le> 32) \<or> c = 0x85 \<or> c = 0xA0 \<or> c = 0x1680 \<or>
      (0x2000 \<le> c \<and> c \<le> 0x200A) \<or> c = 0x2028 \<or> c = 0x2029 \<or> c = 0x202F \<or> c = 0x205F \<or>
      c = 0x3000)"

text \<open>\<open>\w\<close>, for \<open>\b\<close>: an alphanumeric code point or the underscore.\<close>

definition is_word :: "unicode_db \<Rightarrow> int \<Rightarrow> bool" where
  "is_word db c =
     (c = 95 \<or>
      (if c < 128 then (48 \<le> c \<and> c \<le> 57) \<or> (65 \<le> c \<and> c \<le> 90) \<or> (97 \<le> c \<and> c \<le> 122)
       else isalnum_ext db c))"

text \<open>
  A literal under \<open>re.IGNORECASE\<close>. The engine lowers the code point of the text and
  compares it with the lowered pattern letter; the code points that lower to an ASCII
  letter are its capital, U+0130 (for \<open>i\<close>) and U+212A (for \<open>k\<close>), and the engine
  also takes U+0131 for \<open>i\<close> and U+017F for \<open>s\<close>. No pattern has a non-ASCII
  letter.
\<close>

definition sre_lower :: "int \<Rightarrow> int" where
  "sre_lower c =
     (if 65 \<le> c \<and> c \<le> 90 then c + 32
      else if c = 0x130 then 0x69
      else if c = 0x212A then 0x6B
      else c)"

definition ci_eq :: "int \<Rightarrow> int \<Rightarrow> bool" where
  "ci_eq p c =
     (let lo = sre_lower p; lc = sre_lower c
      in lc = lo \<or> (lo = 0x69 \<and> lc = 0x131) \<or> (lo = 0x73 \<and> lc = 0x17F))"

text \<open>
  The six patterns use literals, \<open>\s*\<close>, \<open>\s+\<close>, \<open>\b\<close>, a group of alternative
  literals and an optional literal. A matcher state is the code point before the
  position (for \<open>\b\<close>) and the text still to read; an item maps a state to every state
  it can reach, so that \<open>search\<close> finds a match whenever some way of matching exists.
\<close>

datatype rx_item = RLit string | RSpaceStar | RSpacePlus | RWordB | RAlt "string list" | ROpt string

type_synonym rx_state = "int option \<times> ustr"

fun lit_ci :: "ustr \<Rightarrow> int option \<Rightarrow> ustr \<Rightarrow> rx_state option" where
  "lit_ci [] prev t = Some (prev, t)"
| "lit_ci (p # ps) prev [] = None"
| "lit_ci (p # ps) prev (c # cs) = (if ci_eq p c then lit_ci ps (Some c) cs else None)"

fun space_runs :: "int option \<Rightarrow> ustr \<Rightarrow> rx_state list" where
  "space_runs prev [] = [(prev, [])]"
| "space_runs prev (c # cs) =
     (prev, c # cs) # (if is_space c then space_runs (Some c) cs else [])"

definition word_before :: "unicode_db \<Rightarrow> int option \<Rightarrow> bool" where
  "word_before db prev = (case prev of None \<Rightarrow> False | Some c \<Rightarrow> is_word db c)"

definition word_after :: "unicode_db \<Rightarrow> ustr \<Rightarrow> bool" where
  "word_after db t = (case t of [] \<Rightarrow> False | c # _ \<Rightarrow> is_word db c)"

definition lit_states :: "string \<Rightarrow> rx_state \<Rightarrow> rx_state list" where
  "lit_states s st = (case lit_ci (ascii s) (fst st) (snd st) of None \<Rightarrow> [] | Some r \<Rightarrow> [r])"

fun match_item :: "unicode_db \<Rightarrow> rx_item \<Rightarrow> rx_state \<Rightarrow> rx_state list" where
  "match_item db (RLit s) st = lit_states s st"
| "match_item db RSpaceStar st = space_runs (fst st) (snd st)"
| "match_item db RSpacePlus st =
     (case snd st of [] \<Rightarrow> [] | c # cs \<Rightarrow> if is_space c then space_runs (Some c) cs else [])"
| "match_item db RWordB st =
     (if word_before db (fst st) \<noteq> word_after db (snd st) then [st] else [])"
| "match_item db (RAlt ss) st = concat (map (\<lambda>s. lit_states s st) ss)"
| "match_item db (ROpt s) st = st # lit_states s st"

fun match_seq :: "unicode_db \<Rightarrow> rx_item list \<Rightarrow> rx_state list \<Rightarrow> rx_state list" where
  "match_seq db [] sts = sts"
| "match_seq db (i # is) sts = match_seq db is (concat (map (match_item db i) sts))"

fun search_from :: "unicode_db \<Rightarrow> rx_item list \<Rightarrow> int option \<Rightarrow> ustr \<Rightarrow> bool" where
  "search_from db p prev [] = (match_seq db p [(prev, [])] \<noteq> [])"
| "search_from db p prev (c # cs) =
     (match_seq db p [(prev, c # cs)] \<noteq> [] \<or> search_from db p (Some c) cs)"

definition DCC_PATTERNS :: "rx_item list list" where
  "DCC_PATTERNS =
     [[RWordB, RLit ''DCC'', RWordB],
      [RLit ''DYN'', RSpaceStar, RLit ''C'', RAlt [''URR'', ''URRENCY'']],
      [RLit ''INR'', RSpaceStar, RLit ''@'', RSpaceStar, RLit ''POS''],
      [RLit ''CURRENCY'', RSpacePlus, RLit ''CONVERSION''],
      [RLit ''CONV'', ROpt ''ERSION'', RSpacePlus, RLit ''RATE''],
      [RLit ''MERCHANT'', RSpacePlus, RLit ''CONVERSION'']]"

text \<open>\<open>DCC_REGEX.search(narration)\<close> finds a match: the alternation of the six patterns.\<close>

definition DCC_REGEX_search :: "unicode_db \<Rightarrow> ustr \<Rightarrow> bool" where
  "DCC_REGEX_search db narration = list_ex (\<lambda>p. search_from db p None narration) DCC_PATTERNS"

subsection \<open>What it is for a pattern to match\<close>

text \<open>
  The meaning of the patterns, stated without the matcher. \<open>after m prev\<close> is the code
  point before the position once \<open>m\<close> has been read. An item reads a piece \<open>m\<close> of the
  text: a literal reads its letters in any case, \<open>\s*\<close> and \<open>\s+\<close> read white
  space, \<open>\b\<close> reads nothing where exactly one side is a word character. A pattern is
  found in a text when, after some prefix, its items read consecutive pieces.
\<close>

definition after :: "ustr \<Rightarrow> int option \<Rightarrow> int option" where
  "after m prev = (if m = [] then prev else Some (last m))"

definition reads_lit :: "string \<Rightarrow> ustr \<Rightarrow> bool" where
  "reads_lit s m = list_all2 ci_eq (ascii s) m"

fun item_reads :: "unicode_db \<Rightarrow> rx_item \<Rightarrow> int option \<Rightarrow> ustr \<Rightarrow> ustr \<Rightarrow> bool" where
  "item_reads db (RLit s) prev m rest = reads_lit s m"
| "item_reads db RSpaceStar prev m rest = list_all is_space m"
| "item_reads db RSpacePlus prev m rest = (m \<noteq> [] \<and> list_all is_space m)"
| "item_reads db RWordB prev m rest = (m = [] \<and> word_before db prev \<noteq> word_after db rest)"
| "item_reads db (RAlt ss) prev m rest = (\<exists>s \<in> set ss. reads_lit s m)"
| "item_reads db (ROpt s) prev m rest = (m = [] \<or> reads_lit s m)"

fun seq_reads :: "unicode_db \<Rightarrow> rx_item list \<Rightarrow> int option \<Rightarrow> ustr \<Rightarrow> bool" where
  "seq_reads db [] prev t = True"
| "seq_reads db (i # is) prev t =
     (\<exists>m rest. t = m @ rest \<and> item_reads db i prev m rest \<and> seq_reads db is (after m prev) rest)"

definition found_in :: "unicode_db \<Rightarrow> rx_item list \<Rightarrow> ustr \<Rightarrow> bool" where
  "found_in db p narration =
     (\<exists>pre t. narration = pre @ t \<and> seq_reads db p (after pre None) t)"

subsection \<open>fx\_detector.py\<close>

text \<open>The hints in the order the dict lists them.\<close>

definition CCY_HINTS :: "(ustr \<times> ustr) list" where
  "CCY_HINTS =
     [(ascii ''USD'', ascii ''USD''), (ascii '' US$'', ascii ''USD''), (ascii ''$'', ascii ''USD''),
      (ascii ''EUR'', ascii ''EUR''), ([0x20AC], ascii ''EUR''),
      (ascii ''GBP'', ascii ''GBP''), ([0xA3], ascii ''GBP''),
      (ascii ''AED'', ascii ''AED''), (ascii ''AUD'', ascii ''AUD''),
      (ascii ''SGD'', ascii ''SGD''), (ascii ''CAD'', ascii ''CAD''),
      (ascii ''JPY'', ascii ''JPY''), ([0xA5], ascii ''JPY'')]"

definition COUNTRY_TO_CCY :: "(ustr \<times> ustr) list" where
  "COUNTRY_TO_CCY =
     [(ascii ''US'', ascii ''USD''), (ascii ''GB'', ascii ''GBP''), (ascii ''AE'', ascii ''AED''),
      (ascii ''AU'', ascii ''AUD''), (ascii ''SG'', ascii ''SGD''), (ascii ''CA'', ascii ''CAD''),
      (ascii ''JP'', ascii ''JPY''), (ascii ''DE'', ascii ''EUR''), (ascii ''FR'', ascii ''EUR''),
      (ascii ''NL'', ascii ''EUR'')]"

record FXContext =
  is_foreign :: bool
  is_dcc :: bool
  currency :: "ustr option"
  fx_source :: "string option"
  confidence :: rat
  fx_notes :: "string option"

fun find_hint :: "unicode_db \<Rightarrow> (ustr \<times> ustr) list \<Rightarrow> ustr \<Rightarrow> ustr option" where
  "find_hint db [] text = None"
| "find_hint db ((hint, ccy) # rest) text =
     (if contains (lower db text) (lower db hint) then Some ccy else find_hint db rest text)"

definition find_currency_in_text :: "unicode_db \<Rightarrow> ustr \<Rightarrow> ustr option" where
  "find_currency_in_text db text = (if text = [] then None else find_hint db CCY_HINTS text)"

text \<open>A string option is truthy when it is a non-empty string.\<close>

definition nonempty :: "ustr option \<Rightarrow> bool" where
  "nonempty v = (case v of None \<Rightarrow> False | Some s \<Rightarrow> s \<noteq> [])"

definition infer_from_country :: "unicode_db \<Rightarrow> ustr option \<Rightarrow> ustr option" where
  "infer_from_country db iso_country =
     (case iso_country of
        None \<Rightarrow> None
      | Some c \<Rightarrow> if c = [] then None else map_of COUNTRY_TO_CCY (upper db c))"

text \<open>
  \<open>fx_confidence\<close>. The cut-offs of the error term are the literals 50 and 100 of the
  source; the module constant \<open>FX_INR_TOL\<close> is loaded from the settings and not read
  here. The score is a sum of the tenths 0.5, 0.3, 0.2 and 0.1, which \<open>round(score, 2)\<close>
  leaves as they are; it is kept as a rational.
\<close>

definition fx_confidence :: "bool \<Rightarrow> bool \<Rightarrow> rat option \<Rightarrow> rat" where
  "fx_confidence has_receipt has_country_hint abs_error_inr =
     (let s0 = 0;
          s1 = (if has_receipt then s0 + 1 / 2 else s0);
          s2 = (if has_country_hint then s1 + 3 / 10 else s1);
          s3 = (case abs_error_inr of
                  None \<Rightarrow> s2
                | Some e \<Rightarrow> if e \<le> 50 then s2 + 1 / 5
                            else if e \<le> 100 then s2 + 1 / 10 else s2)
      in min 1 (py_round2 s3))"

text \<open>
  \<open>detect_fx_context\<close>. The timestamp argument is only given a time zone and then never
  read, so it is left out.
\<close>

definition detect_fx_context ::
  "unicode_db \<Rightarrow> ustr \<Rightarrow> ustr option \<Rightarrow> ustr option \<Rightarrow> ustr option \<Rightarrow> rat option \<Rightarrow>
     rat option \<Rightarrow> FXContext" where
  "detect_fx_context db narration merchant_country_iso2 stated_currency receipt_currency
       expected_inr charged_inr =
     (if narration \<noteq> [] \<and> DCC_REGEX_search db narration then
        \<lparr>is_foreign = False, is_dcc = True, currency = Some (ascii ''INR''),
         fx_source = Some ''dcc'', confidence = 1,
         fx_notes = Some ''DCC detected in narration; markup analysis bypassed.''\<rparr>
      else if nonempty stated_currency \<and>
              map_option (upper db) stated_currency \<noteq> Some (ascii ''INR'') then
        \<lparr>is_foreign = True, is_dcc = False, currency = map_option (upper db) stated_currency,
         fx_source = Some ''statement'', confidence = 9 / 10,
         fx_notes = Some ''Foreign currency explicitly present in statement.''\<rparr>
      else if nonempty receipt_currency \<and>
              map_option (upper db) receipt_currency \<noteq> Some (ascii ''INR'') then
        (let abs_err = (case (expected_inr, charged_inr) of
                          (Some e, Some c) \<Rightarrow> Some \<bar>c - e\<bar>
                        | _ \<Rightarrow> None);
             conf = fx_confidence True (nonempty merchant_country_iso2) abs_err
         in \<lparr>is_foreign = True, is_dcc = False,
              currency = map_option (upper db) receipt_currency,
              fx_source = Some ''receipt'', confidence = conf,
              fx_notes = Some ''Currency taken from attached receipt.''\<rparr>)
      else
        (let hinted_ccy = find_currency_in_text db narration
         in if nonempty hinted_ccy \<and> hinted_ccy \<noteq> Some (ascii ''INR'') then
              \<lparr>is_foreign = True, is_dcc = False, currency = hinted_ccy,
               fx_source = Some ''inferred'',
               confidence = fx_confidence False (nonempty merchant_country_iso2) None,
               fx_notes = Some ''Currency inferred from narration hints.''\<rparr>
            else
              (let inferred_ccy = infer_from_country db merchant_country_iso2
               in if nonempty inferred_ccy \<and> inferred_ccy \<noteq> Some (ascii ''INR'') then
                    \<lparr>is_foreign = True, is_dcc = False, currency = inferred_ccy,
                     fx_source = Some ''inferred'',
                     confidence = fx_confidence False True None,
                     fx_notes = Some ''Currency inferred from merchant country.''\<rparr>
                  else
                    \<lparr>is_foreign = False, is_dcc = False, currency = Some (ascii ''INR''),
                     fx_source = None,
                     confidence = (if narration \<noteq> [] \<and>
                                      contains (upper db narration) (ascii ''INR'')
                                   then 4 / 5 else 1 / 2),
                     fx_notes = Some ''No reliable foreign markers; assumed INR.''\<rparr>)))"

text \<open>
  The specification's confidence score: the same weights, with the cut-offs of the error
  term at half the configured tolerance and at the configured tolerance.
\<close>

definition fx_confidence_spec :: "rat \<Rightarrow> bool \<Rightarrow> bool \<Rightarrow> rat option \<Rightarrow> rat" where
  "fx_confidence_spec tol has_receipt has_country_hint abs_error_inr =
     (let s1 = (if has_receipt then 1 / 2 else 0);
          s2 = (if has_country_hint then s1 + 3 / 10 else s1);
          s3 = (case abs_error_inr of
                  None \<Rightarrow> s2
                | Some e \<Rightarrow> if e \<le> tol / 2 then s2 + 1 / 5
                            else if e \<le> tol then s2 + 1 / 10 else s2)
      in min 1 s3)"

text \<open>
  A database for the examples: their texts are ASCII, or ASCII with a no-break space,
  and have no alphanumeric code point from 128 on.
\<close>

definition no_ext :: "int \<Rightarrow> bool" where
  "no_ext c = False"

definition same_text :: "ustr \<Rightarrow> ustr" where
  "same_text s = s"

definition example_db :: unicode_db where
  "example_db = \<lparr>isalnum_ext = no_ext, upper_ext = same_text, lower_ext = same_text\<rparr>"

subsection \<open>cc\_monitor.py: working days\<close>

text \<open>
  A \<open>datetime.date\<close> is its proleptic Gregorian ordinal: 1 is 0001-01-01 and
  \<open>MAXORD\<close> is 9999-12-31, the last date. Adding a \<open>timedelta\<close> that leaves the
  range raises \<open>OverflowError\<close>. \<open>weekday\<close> is 0 on a Monday.
\<close>

type_synonym date = int

definition MAXORD :: date where
  "MAXORD = 3652059"

definition weekday :: "date \<Rightarrow> int" where
  "weekday d = (d + 6) mod 7"

text \<open>\<open>HOLIDAYS\<close> is the set of dates read from the settings.\<close>

definition is_working_day :: "date list \<Rightarrow> date \<Rightarrow> bool" where
  "is_working_day HOLIDAYS d = (weekday d < 5 \<and> d \<notin> set HOLIDAYS)"

text \<open>
  The loop of \<open>add_working_days\<close>, on its two variables \<open>cur\<close> and \<open>added\<close>.
  \<open>cur += timedelta(days=1)\<close> raises on the last date.
\<close>

function add_working_days_loop :: "date list \<Rightarrow> int \<Rightarrow> date \<Rightarrow> int \<Rightarrow> py_error + date" where
  "add_working_days_loop HOLIDAYS days cur added =
     (if added < days then
        (if MAXORD < cur + 1 then Inl OverflowError
         else add_working_days_loop HOLIDAYS days (cur + 1)
                (if is_working_day HOLIDAYS (cur + 1) then added + 1 else added))
      else Inr cur)"
  by pat_completeness auto
termination
  by (relation "measure (\<lambda>(HOLIDAYS, days, cur, added). nat (MAXORD - cur))") auto

declare add_working_days_loop.simps [simp del]

definition add_working_days :: "date list \<Rightarrow> date \<Rightarrow> int \<Rightarrow> py_error + date" where
  "add_working_days HOLIDAYS start days = add_working_days_loop HOLIDAYS days start 0"

text \<open>
  The loop of \<open>working_days_between\<close>. Here \<open>cur + 1\<close> never passes \<open>end\<close>, which
  is a date, so the addition stays in range.
\<close>

function working_days_between_loop :: "date list \<Rightarrow> date \<Rightarrow> date \<Rightarrow> int \<Rightarrow> int" where
  "working_days_between_loop HOLIDAYS end cur cnt =
     (if cur < end then
        working_days_between_loop HOLIDAYS end (cur + 1)
          (if is_working_day HOLIDAYS (cur + 1) then cnt + 1 else cnt)
      else cnt)"
  by pat_completeness auto
termination
  by (relation "measure (\<lambda>(HOLIDAYS, end, cur, cnt). nat (end - cur))") auto

declare working_days_between_loop.simps [simp del]

definition working_days_between :: "date list \<Rightarrow> date \<Rightarrow> date \<Rightarrow> int" where
  "working_days_between HOLIDAYS start end =
     (if end < start then 0 else working_days_between_loop HOLIDAYS end start 0)"


subsection \<open>cc\_monitor.py: classification\<close>

record cc_settings =
  HOLIDAYS :: "date list"
  SLA_WDAYS :: int
  INVOICE_LATER_DAYS :: int
  FINANCE_ESCALATION_DAYS :: int

text \<open>
  A row of \<open>cc_df\<close> after the type normalisation of lines 143 to 145: \<open>txn_date\<close>
  is a date, \<open>entered_at\<close> is a timestamp or \<open>NaT\<close> (\<open>None\<close>).
\<close>

record CCTxn =
  txn_id :: string
  txn_date :: date
  vendor :: string
  card_last4 :: string
  cardholder :: string
  cc_amount_inr :: rat
  has_receipt :: bool
  invoice_later :: bool
  entered_at :: "int option"
  entered_by :: "string option"

datatype cc_stage = D3 | D14 | D30

datatype cc_flag = LateEntry | InvoiceLater | NoReceipt

record CCAgeing =
  txn :: CCTxn
  sla_due_date :: date
  invoice_later_age_days :: int
  is_overdue :: bool
  stage :: "cc_stage option"
  flag :: "cc_flag option"

definition stage_row :: "cc_settings \<Rightarrow> date \<Rightarrow> CCTxn \<Rightarrow> int \<Rightarrow> bool \<Rightarrow> cc_stage option" where
  "stage_row cfg today t age overdue =
     (if invoice_later t \<and> FINANCE_ESCALATION_DAYS cfg \<le> age then Some D30
      else if invoice_later t \<and> INVOICE_LATER_DAYS cfg \<le> age then Some D14
      else if overdue then
        (if SLA_WDAYS cfg \<le> working_days_between (HOLIDAYS cfg) (txn_date t) today
         then Some D3 else None)
      else None)"

definition flag_row :: "CCTxn \<Rightarrow> cc_stage option \<Rightarrow> cc_flag option" where
  "flag_row t st =
     (let f0 = None;
          f1 = (if st = Some D3 then Some LateEntry else f0);
          f2 = (if (st = Some D14 \<or> st = Some D30) \<and> invoice_later t
                then Some InvoiceLater else f1)
      in if (st = Some D14 \<or> st = Some D30) \<and> \<not> has_receipt t then Some NoReceipt else f2)"

text \<open>What \<open>classify_cc_rows\<close> computes for one row.\<close>

definition classify_cc_row :: "cc_settings \<Rightarrow> date \<Rightarrow> CCTxn \<Rightarrow> py_error + CCAgeing" where
  "classify_cc_row cfg today t =
     (case add_working_days (HOLIDAYS cfg) (txn_date t) (SLA_WDAYS cfg) of
        Inl e \<Rightarrow> Inl e
      | Inr due \<Rightarrow>
          (let overdue = (entered_at t = None \<and> due < today);
               age = (if invoice_later t then today - txn_date t else 0);
               st = stage_row cfg today t age overdue
           in Inr \<lparr>txn = t, sla_due_date = due, invoice_later_age_days = age,
                   is_overdue = overdue, stage = st, flag = flag_row t st\<rparr>))"

text \<open>
  The columns are computed row by row, and an exception in one row ends the call. On a
  frame without rows \<open>df.apply(stage_row, axis=1)\<close> gives a frame instead of a
  column, and the assignment of line 173 raises \<open>ValueError\<close>.
\<close>

fun classify_each :: "cc_settings \<Rightarrow> date \<Rightarrow> CCTxn list \<Rightarrow> py_error + CCAgeing list" where
  "classify_each cfg today [] = Inr []"
| "classify_each cfg today (t # ts) =
     (case classify_cc_row cfg today t of
        Inl e \<Rightarrow> Inl e
      | Inr r \<Rightarrow>
          (case classify_each cfg today ts of
             Inl e \<Rightarrow> Inl e
           | Inr rs \<Rightarrow> Inr (r # rs)))"

definition classify_cc_rows :: "cc_settings \<Rightarrow> date \<Rightarrow> CCTxn list \<Rightarrow> py_error + CCAgeing list" where
  "classify_cc_rows cfg today rows =
     (if rows = [] then Inl ValueError else classify_each cfg today rows)"

text \<open>The settings of the fallback \<open>SETTINGS\<close> and the first row of the module's example.\<close>

definition demo_settings :: cc_settings where
  "demo_settings = \<lparr>HOLIDAYS = [], SLA_WDAYS = 3, INVOICE_LATER_DAYS = 14, FINANCE_ESCALATION_DAYS = 30\<rparr>"

definition demo_txn :: CCTxn where
  "demo_txn = \<lparr>txn_id = ''TXN001'', txn_date = 739511, vendor = ''AWS'', card_last4 = ''1234'',
     cardholder = ''Amit Kumar'', cc_amount_inr = 15234, has_receipt = False,
     invoice_later = False, entered_at = None, entered_by = None\<rparr>"


subsection \<open>stripe\_integrity\_checker.py: the columns of the frames\<close>

text \<open>
  The source reaches a column through its label, and a label that the frame does not have
  raises \<open>KeyError\<close>. Whether lines 140 to 156 raise it depends on the labels of the
  two frames alone, not on their rows, so a frame is taken as the list of its column
  labels. The frames are as the clients return them: under the default index, every label
  a column.
\<close>

text \<open>The columns that the normalisation functions expect.\<close>

definition STRIPE_COLUMNS :: "string list" where
  "STRIPE_COLUMNS =
     [''charge_id'', ''payment_intent'', ''invoice_id'', ''email'', ''amount'', ''currency'',
      ''created'', ''status'']"

definition RMS_COLUMNS :: "string list" where
  "RMS_COLUMNS =
     [''rms_id'', ''invoice_no'', ''email'', ''amount_inr'', ''currency'', ''posted_at'']"

text \<open>The columns of the two frames of the module's own example.\<close>

definition EXAMPLE_STRIPE_COLUMNS :: "string list" where
  "EXAMPLE_STRIPE_COLUMNS =
     [''charge_id'', ''invoice_id'', ''email'', ''amount'', ''currency'', ''created'', ''status'']"

definition EXAMPLE_RMS_COLUMNS :: "string list" where
  "EXAMPLE_RMS_COLUMNS = [''rms_id'', ''invoice_no'', ''email'', ''amount_inr'', ''posted_at'']"

text \<open>
  \<open>merge\<close> with \<open>suffixes=('_st', '_r')\<close>: the columns of the left frame, then those
  of the right frame without the key; a column other than the key that both frames have
  gets \<open>_st\<close> on the left and \<open>_r\<close> on the right.
\<close>

definition merge_labels :: "string list \<Rightarrow> string list \<Rightarrow> string \<Rightarrow> string list" where
  "merge_labels L R key =
     map (\<lambda>c. if c \<noteq> key \<and> c \<in> set R then c @ ''_st'' else c) L @
     map (\<lambda>c. if c \<in> set L then c @ ''_r'' else c) (filter (\<lambda>c. c \<noteq> key) R)"

text \<open>Assigning to a column adds its label when the frame does not have it.\<close>

definition add_label :: "string \<Rightarrow> string list \<Rightarrow> string list" where
  "add_label c L = (if c \<in> set L then L else L @ [c])"

definition has_labels :: "string list \<Rightarrow> string list \<Rightarrow> bool" where
  "has_labels L names = list_all (\<lambda>n. n \<in> set L) names"

text \<open>\<open>pd.concat\<close> of two frames: the columns of the first, then the new ones of the second.\<close>

definition concat_labels :: "string list \<Rightarrow> string list \<Rightarrow> string list" where
  "concat_labels A B = A @ filter (\<lambda>c. c \<notin> set A) B"

text \<open>
  \<open>_norm_stripe\<close> reads \<open>amount\<close> and \<open>created\<close> and sets \<open>status\<close> when it is
  missing; \<open>_norm_rms\<close> sets \<open>amount_inr\<close>.
\<close>

definition norm_stripe :: "string list \<Rightarrow> py_error + string list" where
  "norm_stripe L =
     (if \<not> has_labels L [''amount'', ''created''] then Inl KeyError
      else Inr (add_label ''status'' L))"

definition norm_rms :: "string list \<Rightarrow> string list" where
  "norm_rms L = add_label ''amount_inr'' L"

text \<open>
  \<open>_primary_match\<close>: rename \<open>invoice_id\<close>, merge on \<open>invoice_no\<close>, read
  \<open>rms_id\<close>, set \<open>match_type\<close>.
\<close>

definition primary_match :: "string list \<Rightarrow> string list \<Rightarrow> py_error + string list" where
  "primary_match stripe_charges rms =
     (let left = map (\<lambda>c. if c = ''invoice_id'' then ''invoice_no'' else c) stripe_charges
      in if \<not> (''invoice_no'' \<in> set left \<and> ''invoice_no'' \<in> set rms) then Inl KeyError
         else (let m = merge_labels left rms ''invoice_no''
               in if ''rms_id'' \<notin> set m then Inl KeyError
                  else Inr (add_label ''match_type'' m)))"

text \<open>
  \<open>_fallback_match\<close>: read \<open>created\<close>, merge on \<open>email\<close>, read \<open>amount\<close> and
  \<open>amount_inr\<close>, set the three match columns, then read \<open>match_type\<close> (line 135).
  The labels that \<open>_within_window\<close> reads are inside its \<open>try\<close>.
\<close>

definition fallback_match :: "string list \<Rightarrow> string list \<Rightarrow> py_error + string list" where
  "fallback_match stripe_charges rms =
     (if ''created'' \<notin> set stripe_charges then Inl KeyError
      else (let sc = add_label ''created_date'' stripe_charges;
                rm = add_label ''posted_date'' rms
            in if \<not> (''email'' \<in> set sc \<and> ''email'' \<in> set rm) then Inl KeyError
               else (let m = merge_labels sc rm ''email''
                     in if \<not> has_labels m [''amount'', ''amount_inr''] then Inl KeyError
                        else (let m' = add_label ''match_ok''
                                         (add_label ''date_match'' (add_label ''amt_match'' m))
                              in if ''match_type'' \<notin> set m' then Inl KeyError
                                 else Inr m'))))"

text \<open>
  Line 149: the rows of \<open>m_primary\<close> whose \<open>match_type\<close> is missing, then five
  of their columns.
\<close>

definition unmatched :: "string list \<Rightarrow> py_error + string list" where
  "unmatched m_primary =
     (if ''match_type'' \<notin> set m_primary then Inl KeyError
      else if \<not> has_labels m_primary
                   [''charge_id'', ''email'', ''amount'', ''created'', ''invoice_no'']
      then Inl KeyError
      else Inr [''charge_id'', ''email'', ''amount'', ''created'', ''invoice_no''])"

text \<open>
  Lines 140 to 156 of \<open>build_matches_and_flags\<close>: normalise, match on the invoice,
  select five columns of the unmatched rows (line 149), read \<open>charge_id\<close>, match the
  rest on the email, and concatenate. The result is the columns of \<open>matches\<close>; the
  flags of lines 158 to 246 are computed after it.
\<close>

definition build_matches :: "string list \<Rightarrow> string list \<Rightarrow> py_error + string list" where
  "build_matches stripe_charges rms_rows =
     (case norm_stripe stripe_charges of
        Inl e \<Rightarrow> Inl e
      | Inr charges \<Rightarrow>
          (let rms = norm_rms rms_rows
           in case primary_match charges rms of
                Inl e \<Rightarrow> Inl e
              | Inr m_primary \<Rightarrow>
                  (case unmatched m_primary of
                     Inl e \<Rightarrow> Inl e
                   | Inr u \<Rightarrow>
                       if \<not> (''charge_id'' \<in> set charges \<and> ''charge_id'' \<in> set u)
                       then Inl KeyError
                       else (case fallback_match charges rms of
                               Inl e \<Rightarrow> Inl e
                             | Inr m_fallback \<Rightarrow>
                                 Inr (concat_labels m_primary m_fallback)))))"

section \<open>Theorems\<close>

subsection \<open>Markup analyzer\<close>

lemma markup_checks_total:
  "\<not> f_is_zero ops fa \<Longrightarrow> \<not> f_is_zero ops ir \<Longrightarrow> \<exists>r. markup_checks ops tp ti fa ci ir = Inr r"
  by (simp add: markup_checks_def py_truediv_def Let_def)

lemma markup_checks_status:
  "markup_checks ops tp ti fa ci ir = Inr r \<Longrightarrow> status r = FLAGGED \<or> status r = OK"
  by (auto simp: markup_checks_def py_truediv_def Let_def split: if_splits)

lemma analyze_markup_missing:
  "falsy ops fa \<or> falsy ops ci \<or> falsy ops ir \<Longrightarrow>
   analyze_markup ops tp ti fa ci ir ctx = Inr skipped_result"
  by (auto simp: analyze_markup_def falsy_def is_zero_value_def split: option.splits)

lemma analyze_markup_present:
  "\<not> falsy ops fa \<Longrightarrow> \<not> falsy ops ci \<Longrightarrow> \<not> falsy ops ir \<Longrightarrow>
   \<exists>a c i. fa = Some a \<and> ci = Some c \<and> ir = Some i \<and>
     \<not> f_is_zero ops a \<and> \<not> f_is_zero ops c \<and> \<not> f_is_zero ops i \<and>
     analyze_markup ops tp ti fa ci ir ctx =
       (if ctx_is_dcc ctx then Inr bypass_result else markup_checks ops tp ti a c i)"
  by (cases fa; cases ci; cases ir) (auto simp: analyze_markup_def falsy_def is_zero_value_def)

lemma skipped_result_fields:
  "status skipped_result = SKIPPED" "markup_pct skipped_result = None"
  "inr_diff skipped_result = None" "\<not> is_flagged skipped_result"
  by (simp_all add: skipped_result_def)

lemma bypass_result_fields:
  "status bypass_result = BYPASS" "markup_pct bypass_result = None"
  "inr_diff bypass_result = None" "\<not> is_flagged bypass_result"
  by (simp_all add: bypass_result_def)

lemma exact_ops_fields:
  "f_is_zero exact_ops x = (x = 0)" "f_mul exact_ops a b = a * b" "f_sub exact_ops a b = a - b"
  "f_div exact_ops a b = a / b" "f_round2 exact_ops x = py_round2 x" "f_abs exact_ops x = \<bar>x\<bar>"
  "f_gt exact_ops a b = (b < a)" "f_hundred exact_ops = 100"
  by (simp_all add: exact_ops_def exact_is_zero_def exact_gt_def)

lemma py_round2_scenario: "py_round2 (300 / 41) = 183 / 25" "py_round2 600 = 600"
  by code_simp+

text \<open>
  C1, as the claim states it, fails: a DCC transaction whose foreign amount is absent is
  reported as skipped, since the missing-data guard comes before the DCC test.
\<close>

theorem analyze_markup_dcc_missing_counterexample:
  "ctx_is_dcc (Some [(''is_dcc'', True)]) \<and>
   analyze_markup exact_ops (5 / 2) 100 None (Some 8800) (Some 82) (Some [(''is_dcc'', True)])
     = Inr skipped_result \<and>
   status (skipped_result :: rat MarkupResult) \<noteq> BYPASS"
  by (simp add: ctx_is_dcc_def analyze_markup_def skipped_result_def)

text \<open>
  C1 (amended): for a DCC context the result is bypassed when the three numbers are all
  present and non-zero, and skipped otherwise; it is never flagged nor ok, and in both
  cases \<open>markup_pct\<close> and \<open>inr_diff\<close> are null and \<open>is_flagged\<close> is false.
\<close>

theorem analyze_markup_dcc:
  assumes "ctx_is_dcc ctx"
  shows "\<exists>r. analyze_markup ops tp ti fa ci ir ctx = Inr r \<and>
           status r = (if falsy ops fa \<or> falsy ops ci \<or> falsy ops ir then SKIPPED else BYPASS) \<and>
           status r \<noteq> FLAGGED \<and> status r \<noteq> OK \<and>
           markup_pct r = None \<and> inr_diff r = None \<and> \<not> is_flagged r"
proof (cases "falsy ops fa \<or> falsy ops ci \<or> falsy ops ir")
  case True
  then show ?thesis
    using analyze_markup_missing [of ops fa ci ir tp ti ctx] by (simp add: skipped_result_fields)
next
  case False
  then show ?thesis
    using analyze_markup_present [of ops fa ci ir tp ti ctx] assms
    by (auto simp: bypass_result_fields)
qed

theorem analyze_markup_dcc_witness:
  "ctx_is_dcc (Some [(''is_dcc'', True)]) \<and>
   (\<exists>r. analyze_markup exact_ops (5 / 2) 100 (Some 100) (Some 8800) (Some 82)
           (Some [(''is_dcc'', True)])
           = Inr r \<and> status r = BYPASS \<and> markup_pct r = None \<and> inr_diff r = None)"
proof -
  have h: "ctx_is_dcc (Some [(''is_dcc'', True)])"
    by (simp add: ctx_is_dcc_def)
  show ?thesis
    using h analyze_markup_dcc [OF h, of exact_ops "5 / 2" 100 "Some 100" "Some 8800" "Some 82"]
    by (auto simp: falsy_def is_zero_value_def exact_ops_fields)
qed

text \<open>
  C3: with the three numbers present and non-zero and no DCC, the result carries the
  rounded markup percentage and the rounded deviation as the float operations give
  them, and it is flagged exactly when the percentage is greater than
  \<open>FX_MARKUP_TOL\<close> or the absolute deviation is greater than \<open>FX_INR_TOL\<close>. The
  reason of a flagged result names every exceeded threshold: the percentage alone, the
  deviation alone, or the percentage, \<open>"; "\<close> and the deviation.
\<close>

theorem analyze_markup_flag_iff:
  assumes "\<not> f_is_zero ops fa" and "\<not> f_is_zero ops ci" and "\<not> f_is_zero ops ir"
    and "\<not> ctx_is_dcc ctx"
    and "m = f_round2 ops (f_mul ops (f_div ops (f_sub ops (f_div ops ci fa) ir) ir) (f_hundred ops))"
    and "d = f_round2 ops (f_sub ops ci (f_mul ops fa ir))"
  shows "\<exists>r. analyze_markup ops tp ti (Some fa) (Some ci) (Some ir) ctx = Inr r \<and>
           markup_pct r = Some m \<and> inr_diff r = Some d \<and>
           (is_flagged r \<longleftrightarrow> f_gt ops m tp \<or> f_gt ops (f_abs ops d) ti) \<and>
           status r = (if is_flagged r then FLAGGED else OK) \<and>
           (f_gt ops m tp \<and> f_gt ops (f_abs ops d) ti \<longrightarrow>
              reason r =
                [Lit (ascii ''Markup ''), Num m, Lit (ascii ''% exceeds ''), Num tp,
                 Lit (ascii ''%''), Lit (ascii ''; ''),
                 Lit (ascii ''INR difference '' @ [0x20B9]), Num (f_abs ops d),
                 Lit (ascii '' exceeds '' @ [0x20B9]), Num ti]) \<and>
           (f_gt ops m tp \<and> \<not> f_gt ops (f_abs ops d) ti \<longrightarrow>
              reason r =
                [Lit (ascii ''Markup ''), Num m, Lit (ascii ''% exceeds ''), Num tp,
                 Lit (ascii ''%'')]) \<and>
           (\<not> f_gt ops m tp \<and> f_gt ops (f_abs ops d) ti \<longrightarrow>
              reason r =
                [Lit (ascii ''INR difference '' @ [0x20B9]), Num (f_abs ops d),
                 Lit (ascii '' exceeds '' @ [0x20B9]), Num ti])"
  using assms
  by (simp add: analyze_markup_def markup_checks_def py_truediv_def Let_def
      markup_reason_def inr_reason_def rupee_def)

theorem analyze_markup_flag_iff_witness:
  "\<not> f_is_zero exact_ops 100 \<and> \<not> f_is_zero exact_ops 8800 \<and> \<not> f_is_zero exact_ops 82 \<and>
   \<not> ctx_is_dcc None \<and>
   f_gt exact_ops (183 / 25) DEFAULT_FX_MARKUP_TOL \<and>
   f_gt exact_ops (f_abs exact_ops 600) DEFAULT_FX_INR_TOL \<and>
   (\<exists>r. analyze_markup exact_ops DEFAULT_FX_MARKUP_TOL DEFAULT_FX_INR_TOL
           (Some 100) (Some 8800) (Some 82) None = Inr r \<and>
         markup_pct r = Some (183 / 25) \<and> inr_diff r = Some 600 \<and>
         is_flagged r \<and> status r = FLAGGED \<and>
         reason r =
           [Lit (ascii ''Markup ''), Num (183 / 25), Lit (ascii ''% exceeds ''), Num (5 / 2),
            Lit (ascii ''%''), Lit (ascii ''; ''),
            Lit (ascii ''INR difference '' @ [0x20B9]), Num 600,
            Lit (ascii '' exceeds '' @ [0x20B9]), Num 100])"
proof -
  have h: "\<not> ctx_is_dcc None"
    by (simp add: ctx_is_dcc_def)
  have m: "(183 / 25 :: rat) = f_round2 exact_ops
      (f_mul exact_ops (f_div exact_ops (f_sub exact_ops (f_div exact_ops 8800 100) 82) 82)
         (f_hundred exact_ops))"
    by (simp add: exact_ops_fields py_round2_scenario)
  have d: "(600 :: rat) = f_round2 exact_ops (f_sub exact_ops 8800 (f_mul exact_ops 100 82))"
    by (simp add: exact_ops_fields py_round2_scenario)
  show ?thesis
    using h analyze_markup_flag_iff [of exact_ops 100 8800 82 None "183 / 25" 600
        DEFAULT_FX_MARKUP_TOL DEFAULT_FX_INR_TOL, OF _ _ _ h m d]
    by (auto simp: exact_ops_fields DEFAULT_FX_MARKUP_TOL_def DEFAULT_FX_INR_TOL_def)
qed

text \<open>
  C6, as the claim states it, fails: with the foreign amount and the rate present and
  non-zero, a charged amount of zero is reported as skipped although nothing is absent.
\<close>

theorem analyze_markup_zero_charge_counterexample:
  "\<not> spec_missing exact_ops (Some 100) (Some 0) (Some 82) \<and>
   analyze_markup exact_ops (5 / 2) 100 (Some 100) (Some 0) (Some 82) None = Inr skipped_result \<and>
   status (skipped_result :: rat MarkupResult) = SKIPPED"
  by (simp add: spec_missing_def is_zero_value_def analyze_markup_def skipped_result_def
      exact_ops_fields)

text \<open>
  C6 (amended): the status is skipped if and only if one of the foreign amount, the
  charged amount and the reference rate is absent or zero (a zero is treated as missing
  for each of the three); in every skipped result \<open>markup_pct\<close> and \<open>inr_diff\<close> are
  null and \<open>is_flagged\<close> is false.
\<close>

theorem analyze_markup_skipped_iff:
  "\<exists>r. analyze_markup ops tp ti fa ci ir ctx = Inr r \<and>
        (status r = SKIPPED \<longleftrightarrow> falsy ops fa \<or> falsy ops ci \<or> falsy ops ir) \<and>
        (status r = SKIPPED \<longrightarrow> markup_pct r = None \<and> inr_diff r = None \<and> \<not> is_flagged r)"
proof (cases "falsy ops fa \<or> falsy ops ci \<or> falsy ops ir")
  case True
  then show ?thesis
    using analyze_markup_missing [of ops fa ci ir tp ti ctx] by (simp add: skipped_result_fields)
next
  case False
  then obtain a c i where p: "\<not> f_is_zero ops a" "\<not> f_is_zero ops i"
    and eq: "analyze_markup ops tp ti fa ci ir ctx =
       (if ctx_is_dcc ctx then Inr bypass_result else markup_checks ops tp ti a c i)"
    using analyze_markup_present [of ops fa ci ir tp ti ctx] by auto
  show ?thesis
  proof (cases "ctx_is_dcc ctx")
    case True
    with eq False show ?thesis by (simp add: bypass_result_fields)
  next
    case nd: False
    from markup_checks_total [OF p] obtain r where r: "markup_checks ops tp ti a c i = Inr r"
      by blast
    from markup_checks_status [OF r] have "status r \<noteq> SKIPPED" by auto
    with eq nd r False show ?thesis by simp
  qed
qed

theorem analyze_markup_skipped_iff_witness:
  "\<exists>r. analyze_markup exact_ops (5 / 2) 100 (Some 0) (Some 8800) (Some 82) None = Inr r \<and>
        status r = SKIPPED \<and> markup_pct r = None \<and> inr_diff r = None \<and> \<not> is_flagged r"
  using analyze_markup_skipped_iff [of exact_ops "5 / 2" 100 "Some 0" "Some 8800" "Some 82" None]
  by (auto simp: falsy_def is_zero_value_def exact_ops_fields)

text \<open>
  C9: \<open>analyze_markup\<close> returns a result on every input, no division by zero is
  reached, and when the charged amount or the reference rate is zero the result is the
  skipped one, with null numeric outputs.
\<close>

theorem analyze_markup_zero_total:
  "(\<exists>r. analyze_markup ops tp ti fa ci ir ctx = Inr r) \<and>
   (is_zero_value ops ci \<or> is_zero_value ops ir \<longrightarrow>
      analyze_markup ops tp ti fa ci ir ctx = Inr skipped_result \<and>
      status (skipped_result :: 'f MarkupResult) = SKIPPED \<and>
      markup_pct (skipped_result :: 'f MarkupResult) = None \<and>
      inr_diff (skipped_result :: 'f MarkupResult) = None \<and>
      \<not> is_flagged (skipped_result :: 'f MarkupResult))"
proof -
  have "\<exists>r. analyze_markup ops tp ti fa ci ir ctx = Inr r"
  proof (cases "falsy ops fa \<or> falsy ops ci \<or> falsy ops ir")
    case True
    then show ?thesis using analyze_markup_missing [of ops fa ci ir tp ti ctx] by simp
  next
    case False
    then show ?thesis
      using analyze_markup_present [of ops fa ci ir tp ti ctx] markup_checks_total
      by (cases "ctx_is_dcc ctx") auto
  qed
  moreover have "is_zero_value ops ci \<or> is_zero_value ops ir \<Longrightarrow>
      analyze_markup ops tp ti fa ci ir ctx = Inr skipped_result"
    using analyze_markup_missing [of ops fa ci ir tp ti ctx] by (auto simp: falsy_def)
  ultimately show ?thesis by (auto simp: skipped_result_fields)
qed

theorem analyze_markup_zero_total_witness:
  "is_zero_value exact_ops (Some 0) \<and>
   analyze_markup exact_ops (5 / 2) 100 (Some 100) (Some 8800) (Some 0) None = Inr skipped_result \<and>
   analyze_markup exact_ops (5 / 2) 100 (Some 100) (Some 0) (Some 82) (Some [(''is_dcc'', True)])
     = Inr skipped_result"
  using analyze_markup_zero_total [of exact_ops "5 / 2" 100 "Some 100" "Some 8800" "Some 0" None]
    analyze_markup_zero_total [of exact_ops "5 / 2" 100 "Some 100" "Some 0" "Some 82" "Some [(''is_dcc'', True)]"]
  by (auto simp: is_zero_value_def exact_ops_fields)

subsection \<open>The DCC patterns\<close>

lemma after_Cons: "after (c # m) prev = after m (Some c)"
  by (simp add: after_def)

lemma lit_ci_iff:
  "lit_ci s prev t = Some st \<longleftrightarrow>
   (\<exists>m. t = m @ snd st \<and> fst st = after m prev \<and> list_all2 ci_eq s m)"
proof (induction s prev t rule: lit_ci.induct)
  case (1 prev t)
  then show ?case by (cases st) (auto simp: after_def)
next
  case (2 p ps prev)
  then show ?case by (auto simp: list_all2_Cons1)
next
  case (3 p ps prev c cs)
  show ?case
  proof (cases "ci_eq p c")
    case True
    have "(\<exists>m. c # cs = m @ snd st \<and> fst st = after m prev \<and> list_all2 ci_eq (p # ps) m) \<longleftrightarrow>
          (\<exists>m'. cs = m' @ snd st \<and> fst st = after m' (Some c) \<and> list_all2 ci_eq ps m')"
      using True by (auto simp: list_all2_Cons1 after_Cons)
    with 3 True show ?thesis by simp
  next
    case False
    then show ?thesis by (auto simp: list_all2_Cons1)
  qed
qed

lemma lit_states_iff:
  "st' \<in> set (lit_states s st) \<longleftrightarrow>
   (\<exists>m. snd st = m @ snd st' \<and> fst st' = after m (fst st) \<and> reads_lit s m)"
proof -
  have "st' \<in> set (lit_states s st) \<longleftrightarrow> lit_ci (ascii s) (fst st) (snd st) = Some st'"
  proof (cases "lit_ci (ascii s) (fst st) (snd st)")
    case None
    then show ?thesis by (simp add: lit_states_def)
  next
    case (Some r)
    then show ?thesis by (auto simp: lit_states_def)
  qed
  then show ?thesis
    by (simp add: lit_ci_iff reads_lit_def)
qed

lemma space_runs_iff:
  "st' \<in> set (space_runs prev t) \<longleftrightarrow>
   (\<exists>m. t = m @ snd st' \<and> fst st' = after m prev \<and> list_all is_space m)"
proof (induction prev t rule: space_runs.induct)
  case (1 prev)
  then show ?case by (cases st') (auto simp: after_def)
next
  case (2 prev c cs)
  have "(\<exists>m. c # cs = m @ snd st' \<and> fst st' = after m prev \<and> list_all is_space m) \<longleftrightarrow>
        st' = (prev, c # cs) \<or>
        (is_space c \<and> (\<exists>m'. cs = m' @ snd st' \<and> fst st' = after m' (Some c) \<and> list_all is_space m'))"
    (is "?L \<longleftrightarrow> ?R")
  proof
    assume ?L
    then obtain m where m: "c # cs = m @ snd st'" "fst st' = after m prev" "list_all is_space m"
      by blast
    show ?R
    proof (cases m)
      case Nil
      with m have "st' = (prev, c # cs)" by (cases st') (simp add: after_def)
      then show ?thesis by simp
    next
      case (Cons x m')
      with m show ?thesis by (auto simp: after_Cons)
    qed
  next
    assume ?R
    then show ?L
    proof
      assume "st' = (prev, c # cs)"
      then have "c # cs = [] @ snd st' \<and> fst st' = after [] prev \<and> list_all is_space []"
        by (simp add: after_def)
      then show ?L by blast
    next
      assume "is_space c \<and> (\<exists>m'. cs = m' @ snd st' \<and> fst st' = after m' (Some c) \<and> list_all is_space m')"
      then obtain m' where "is_space c" "cs = m' @ snd st'" "fst st' = after m' (Some c)"
        "list_all is_space m'" by blast
      then have "c # cs = (c # m') @ snd st' \<and> fst st' = after (c # m') prev \<and>
                 list_all is_space (c # m')"
        by (simp add: after_Cons)
      then show ?L by blast
    qed
  qed
  with 2 show ?case by auto
qed

lemma match_item_iff:
  "st' \<in> set (match_item db i st) \<longleftrightarrow>
   (\<exists>m. snd st = m @ snd st' \<and> fst st' = after m (fst st) \<and> item_reads db i (fst st) m (snd st'))"
proof (cases i)
  case (RLit s)
  then show ?thesis by (simp add: lit_states_iff)
next
  case RSpaceStar
  then show ?thesis by (simp add: space_runs_iff)
next
  case RSpacePlus
  show ?thesis
  proof (cases "snd st")
    case Nil
    with RSpacePlus show ?thesis by auto
  next
    case (Cons c cs)
    have "(\<exists>m. c # cs = m @ snd st' \<and> fst st' = after m (fst st) \<and> m \<noteq> [] \<and> list_all is_space m) \<longleftrightarrow>
          (is_space c \<and> (\<exists>m'. cs = m' @ snd st' \<and> fst st' = after m' (Some c) \<and> list_all is_space m'))"
      (is "?L \<longleftrightarrow> ?R")
    proof
      assume ?L
      then obtain m where m: "c # cs = m @ snd st'" "fst st' = after m (fst st)" "m \<noteq> []"
        "list_all is_space m" by blast
      then obtain m' where "m = c # m'" by (cases m) auto
      with m show ?R by (auto simp: after_Cons)
    next
      assume ?R
      then obtain m' where "is_space c" "cs = m' @ snd st'" "fst st' = after m' (Some c)"
        "list_all is_space m'" by blast
      then have "c # cs = (c # m') @ snd st' \<and> fst st' = after (c # m') (fst st) \<and>
                 c # m' \<noteq> [] \<and> list_all is_space (c # m')"
        by (simp add: after_Cons)
      then show ?L by blast
    qed
    with RSpacePlus Cons show ?thesis by (simp add: space_runs_iff)
  qed
next
  case RWordB
  then show ?thesis by (cases st; cases st') (auto simp: after_def)
next
  case (RAlt ss)
  then show ?thesis by (auto simp: lit_states_iff)
next
  case (ROpt s)
  have "st' = st \<longleftrightarrow> (snd st = [] @ snd st' \<and> fst st' = after [] (fst st))"
    by (cases st; cases st') (auto simp: after_def)
  with ROpt show ?thesis by (auto simp: lit_states_iff)
qed

lemma match_seq_iff:
  "match_seq db is sts \<noteq> [] \<longleftrightarrow> (\<exists>st \<in> set sts. seq_reads db is (fst st) (snd st))"
proof (induction "is" arbitrary: sts)
  case Nil
  then show ?case by (cases sts) auto
next
  case (Cons i "is")
  have "match_seq db (i # is) sts \<noteq> [] \<longleftrightarrow>
        (\<exists>mid \<in> set (concat (map (match_item db i) sts)). seq_reads db is (fst mid) (snd mid))"
    using Cons.IH [of "concat (map (match_item db i) sts)"] by simp
  also have "\<dots> \<longleftrightarrow> (\<exists>st \<in> set sts. \<exists>mid. mid \<in> set (match_item db i st) \<and>
                        seq_reads db is (fst mid) (snd mid))"
    by fastforce
  also have "\<dots> \<longleftrightarrow> (\<exists>st \<in> set sts. seq_reads db (i # is) (fst st) (snd st))"
  proof -
    have "(\<exists>mid. mid \<in> set (match_item db i st) \<and> seq_reads db is (fst mid) (snd mid)) \<longleftrightarrow>
          seq_reads db (i # is) (fst st) (snd st)" for st
    proof
      assume "\<exists>mid. mid \<in> set (match_item db i st) \<and> seq_reads db is (fst mid) (snd mid)"
      then obtain mid m where "snd st = m @ snd mid" "fst mid = after m (fst st)"
        "item_reads db i (fst st) m (snd mid)" "seq_reads db is (fst mid) (snd mid)"
        unfolding match_item_iff by blast
      then show "seq_reads db (i # is) (fst st) (snd st)"
        by auto
    next
      assume "seq_reads db (i # is) (fst st) (snd st)"
      then obtain m rest where mr: "snd st = m @ rest" "item_reads db i (fst st) m rest"
        "seq_reads db is (after m (fst st)) rest"
        by auto
      then have "(after m (fst st), rest) \<in> set (match_item db i st)"
        unfolding match_item_iff by auto
      with mr show "\<exists>mid. mid \<in> set (match_item db i st) \<and> seq_reads db is (fst mid) (snd mid)"
        by force
    qed
    then show ?thesis by simp
  qed
  finally show ?case .
qed

lemma match_seq_single:
  "match_seq db p [(prev, t)] \<noteq> [] \<longleftrightarrow> seq_reads db p prev t"
  by (simp add: match_seq_iff)

lemma search_from_iff:
  "search_from db p prev t \<longleftrightarrow> (\<exists>pre rest. t = pre @ rest \<and> seq_reads db p (after pre prev) rest)"
proof (induction t arbitrary: prev)
  case Nil
  then show ?case by (simp add: match_seq_single after_def)
next
  case (Cons c cs)
  have "(\<exists>pre rest. c # cs = pre @ rest \<and> seq_reads db p (after pre prev) rest) \<longleftrightarrow>
        seq_reads db p prev (c # cs) \<or>
        (\<exists>pre' rest. cs = pre' @ rest \<and> seq_reads db p (after pre' (Some c)) rest)"
    (is "?L \<longleftrightarrow> ?R")
  proof
    assume ?L
    then obtain pre rest where pr: "c # cs = pre @ rest" "seq_reads db p (after pre prev) rest"
      by blast
    show ?R
    proof (cases pre)
      case Nil
      with pr show ?thesis by (simp add: after_def)
    next
      case (Cons x pre')
      with pr show ?thesis by (auto simp: after_Cons)
    qed
  next
    assume ?R
    then show ?L
    proof
      assume "seq_reads db p prev (c # cs)"
      then have "c # cs = [] @ (c # cs) \<and> seq_reads db p (after [] prev) (c # cs)"
        by (simp add: after_def)
      then show ?L by blast
    next
      assume "\<exists>pre' rest. cs = pre' @ rest \<and> seq_reads db p (after pre' (Some c)) rest"
      then obtain pre' rest where "cs = pre' @ rest" "seq_reads db p (after pre' (Some c)) rest"
        by blast
      then have "c # cs = (c # pre') @ rest \<and> seq_reads db p (after (c # pre') prev) rest"
        by (simp add: after_Cons)
      then show ?L by blast
    qed
  qed
  with Cons show ?case by (simp add: match_seq_single)
qed

lemma DCC_REGEX_search_iff:
  "DCC_REGEX_search db narration \<longleftrightarrow> (\<exists>p \<in> set DCC_PATTERNS. found_in db p narration)"
  by (simp add: DCC_REGEX_search_def list_ex_iff search_from_iff found_in_def)

lemma DCC_REGEX_search_empty: "\<not> DCC_REGEX_search db []"
  by (simp add: DCC_REGEX_search_def DCC_PATTERNS_def lit_states_def ascii_def
      word_before_def word_after_def)

subsection \<open>FX context\<close>

text \<open>
  C5: when one of the DCC patterns is found in the narration, whatever the case of its
  letters, \<open>detect_fx_context\<close> returns the DCC context (not foreign, DCC, currency
  INR, confidence 1), whatever the stated currency, the receipt currency, the merchant
  country and the amounts are.
\<close>

theorem detect_fx_context_dcc:
  assumes "\<exists>p \<in> set DCC_PATTERNS. found_in db p narration"
  shows "detect_fx_context db narration merchant_country_iso2 stated_currency receipt_currency
           expected_inr charged_inr =
         \<lparr>is_foreign = False, is_dcc = True, currency = Some (ascii ''INR''),
          fx_source = Some ''dcc'', confidence = 1,
          fx_notes = Some ''DCC detected in narration; markup analysis bypassed.''\<rparr>"
proof -
  from assms have s: "DCC_REGEX_search db narration"
    by (simp add: DCC_REGEX_search_iff)
  with DCC_REGEX_search_empty have "narration \<noteq> []"
    by auto
  with s show ?thesis
    by (simp add: detect_fx_context_def)
qed

lemma dcc_examples:
  "DCC_REGEX_search example_db (ascii ''AMZN US * DYN CURR'')"
  "DCC_REGEX_search example_db (ascii ''paid in inr @ pos, conv rate 83.1'')"
  "DCC_REGEX_search example_db (ascii ''Hotel Dcc fee'')"
  "DCC_REGEX_search example_db (ascii ''DYN'' @ [0xA0] @ ascii ''CURR'')"
  "\<not> DCC_REGEX_search example_db (ascii ''ADCC SHOP'')"
  "\<not> DCC_REGEX_search example_db (ascii ''DYNAMIC CURRENCY'')"
  by code_simp+

theorem detect_fx_context_dcc_witness:
  "(\<exists>p \<in> set DCC_PATTERNS. found_in example_db p (ascii ''AMZN US * DYN CURR'')) \<and>
   is_dcc (detect_fx_context example_db (ascii ''AMZN US * DYN CURR'') (Some (ascii ''US''))
       (Some (ascii ''USD'')) (Some (ascii ''EUR'')) (Some 8200) (Some 8800)) \<and>
   (\<exists>p \<in> set DCC_PATTERNS. found_in example_db p (ascii ''paid in inr @ pos, conv rate 83.1'')) \<and>
   detect_fx_context example_db (ascii ''paid in inr @ pos, conv rate 83.1'') None
       (Some (ascii ''USD'')) None None None =
     \<lparr>is_foreign = False, is_dcc = True, currency = Some (ascii ''INR''),
      fx_source = Some ''dcc'', confidence = 1,
      fx_notes = Some ''DCC detected in narration; markup analysis bypassed.''\<rparr> \<and>
   (\<exists>p \<in> set DCC_PATTERNS. found_in example_db p (ascii ''Hotel Dcc fee'')) \<and>
   is_dcc (detect_fx_context example_db (ascii ''Hotel Dcc fee'') None None None None None) \<and>
   (\<exists>p \<in> set DCC_PATTERNS. found_in example_db p (ascii ''DYN'' @ [0xA0] @ ascii ''CURR'')) \<and>
   is_dcc (detect_fx_context example_db (ascii ''DYN'' @ [0xA0] @ ascii ''CURR'') None None None
       None None)"
proof -
  have h1: "\<exists>p \<in> set DCC_PATTERNS. found_in example_db p (ascii ''AMZN US * DYN CURR'')"
    using dcc_examples(1) by (simp add: DCC_REGEX_search_iff)
  have h2: "\<exists>p \<in> set DCC_PATTERNS.
      found_in example_db p (ascii ''paid in inr @ pos, conv rate 83.1'')"
    using dcc_examples(2) by (simp add: DCC_REGEX_search_iff)
  have h3: "\<exists>p \<in> set DCC_PATTERNS. found_in example_db p (ascii ''Hotel Dcc fee'')"
    using dcc_examples(3) by (simp add: DCC_REGEX_search_iff)
  have h4: "\<exists>p \<in> set DCC_PATTERNS. found_in example_db p (ascii ''DYN'' @ [0xA0] @ ascii ''CURR'')"
    using dcc_examples(4) by (simp add: DCC_REGEX_search_iff)
  show ?thesis
    using h1 h2 h3 h4 detect_fx_context_dcc [OF h1] detect_fx_context_dcc [OF h2]
      detect_fx_context_dcc [OF h3] detect_fx_context_dcc [OF h4]
    by simp
qed

lemma fx_confidence_default_tolerance:
  "fx_confidence rc ch err = fx_confidence_spec 100 rc ch err"
proof -
  have r: "py_round2 0 = 0" "py_round2 (1 / 2) = 1 / 2" "py_round2 (3 / 10) = 3 / 10"
    "py_round2 (4 / 5) = 4 / 5" "py_round2 (1 / 5) = 1 / 5" "py_round2 (1 / 10) = 1 / 10"
    "py_round2 (7 / 10) = 7 / 10" "py_round2 (3 / 5) = 3 / 5" "py_round2 (2 / 5) = 2 / 5"
    "py_round2 1 = 1" "py_round2 (9 / 10) = 9 / 10"
    by code_simp+
  show ?thesis
    by (cases rc; cases ch; cases err)
      (simp_all add: fx_confidence_def fx_confidence_spec_def Let_def r)
qed

lemma no_dcc_in_example: "\<not> DCC_REGEX_search db (ascii ''POS PURCHASE'')"
  by code_simp

text \<open>
  C7: with the tolerance configured as 200, an error of 80 is within half the tolerance,
  and the specification's score for a receipt without a country is 0.7. The code compares
  the error with the literals 50 and 100 and returns 0.6.
\<close>

theorem fx_confidence_fixed_cutoffs:
  "confidence (detect_fx_context db (ascii ''POS PURCHASE'') None None (Some (ascii ''USD''))
      (Some 1000) (Some 1080)) = 3 / 5 \<and>
   fx_confidence True False (Some \<bar>1080 - 1000\<bar>) = 3 / 5 \<and>
   fx_confidence_spec 200 True False (Some \<bar>1080 - 1000\<bar>) = 7 / 10"
  by code_simp

subsection \<open>Card ageing\<close>









lemma classify_each_Inr:
  "classify_each cfg today rows = Inr out \<Longrightarrow>
   length out = length rows \<and> (\<forall>i < length rows. classify_cc_row cfg today (rows ! i) = Inr (out ! i))"
proof (induction rows arbitrary: out)
  case Nil
  then show ?case by simp
next
  case (Cons t ts)
  from Cons.prems obtain r rs where r: "classify_cc_row cfg today t = Inr r"
    and rs: "classify_each cfg today ts = Inr rs" and out: "out = r # rs"
    by (auto split: sum.splits)
  from Cons.IH [OF rs] r out show ?case
    by (auto simp: nth_Cons split: nat.splits)
qed

lemma classify_each_ok:
  "(\<And>t. t \<in> set rows \<Longrightarrow> \<exists>r. classify_cc_row cfg today t = Inr r) \<Longrightarrow>
   \<exists>out. classify_each cfg today rows = Inr out"
proof (induction rows)
  case Nil
  then show ?case by simp
next
  case (Cons t ts)
  from Cons.prems [of t] obtain r where r: "classify_cc_row cfg today t = Inr r" by auto
  from Cons.IH Cons.prems obtain rs where "classify_each cfg today ts = Inr rs" by auto
  with r show ?case by simp
qed


lemma classify_cc_rows_Inr:
  "classify_cc_rows cfg today rows = Inr out \<Longrightarrow>
   rows \<noteq> [] \<and> length out = length rows \<and>
   (\<forall>i < length rows. classify_cc_row cfg today (rows ! i) = Inr (out ! i))"
  using classify_each_Inr [of cfg today rows out]
  by (auto simp: classify_cc_rows_def split: if_splits)

lemma classify_cc_rows_ok:
  "rows \<noteq> [] \<Longrightarrow> (\<And>t. t \<in> set rows \<Longrightarrow> \<exists>r. classify_cc_row cfg today t = Inr r) \<Longrightarrow>
   \<exists>out. classify_cc_rows cfg today rows = Inr out"
  using classify_each_ok [of rows cfg today] by (simp add: classify_cc_rows_def)

lemma classify_cc_row_Inr:
  "classify_cc_row cfg today t = Inr r \<Longrightarrow>
   \<exists>due. add_working_days (HOLIDAYS cfg) (txn_date t) (SLA_WDAYS cfg) = Inr due \<and>
     sla_due_date r = due \<and> (is_overdue r \<longleftrightarrow> entered_at t = None \<and> due < today)"
  by (auto simp: classify_cc_row_def Let_def split: sum.splits)

lemma classify_cc_row_ok:
  "add_working_days (HOLIDAYS cfg) (txn_date t) (SLA_WDAYS cfg) = Inr due \<Longrightarrow>
   \<exists>r. classify_cc_row cfg today t = Inr r"
  by (simp add: classify_cc_row_def Let_def)


text \<open>
  C8: for a row without entry timestamp, \<open>is_overdue\<close> holds exactly when \<open>today\<close>
  is after the SLA due date, which is \<open>add_working_days\<close> of the transaction date and
  \<open>SLA_WDAYS\<close>; on the due date itself the row is not overdue, one day later it is.
\<close>

theorem is_overdue_iff:
  assumes "classify_cc_rows cfg today rows = Inr out" and "i < length rows"
    and "entered_at (rows ! i) = None"
  shows "\<exists>due. add_working_days (HOLIDAYS cfg) (txn_date (rows ! i)) (SLA_WDAYS cfg) = Inr due \<and>
           sla_due_date (out ! i) = due \<and>
           (is_overdue (out ! i) \<longleftrightarrow> due < today) \<and>
           (today = due \<longrightarrow> \<not> is_overdue (out ! i)) \<and>
           (today = due + 1 \<longrightarrow> is_overdue (out ! i))"
proof -
  from classify_cc_rows_Inr [OF assms(1)] assms(2)
  have "classify_cc_row cfg today (rows ! i) = Inr (out ! i)" by simp
  from classify_cc_row_Inr [OF this] assms(3) show ?thesis by auto
qed

lemma demo_due: "add_working_days [] 739511 3 = Inr 739516"
  by code_simp

theorem is_overdue_iff_witness:
  "\<exists>out out'. classify_cc_rows demo_settings 739516 [demo_txn] = Inr out \<and> 
     entered_at ([demo_txn] ! 0) = None \<and>
     sla_due_date (out ! 0) = 739516 \<and> \<not> is_overdue (out ! 0) \<and>
     classify_cc_rows demo_settings 739517 [demo_txn] = Inr out' \<and> is_overdue (out' ! 0)"
proof -
  have d: "add_working_days (HOLIDAYS demo_settings) (txn_date ([demo_txn] ! 0)) (SLA_WDAYS demo_settings) = Inr 739516"
    by (simp add: demo_settings_def demo_txn_def demo_due)
  have n: "entered_at ([demo_txn] ! 0) = None"
    by (simp add: demo_txn_def)
  obtain out where o: "classify_cc_rows demo_settings 739516 [demo_txn] = Inr out"
    using classify_cc_rows_ok [of "[demo_txn]" demo_settings 739516] classify_cc_row_ok [OF d]
    by auto
  obtain out' where o': "classify_cc_rows demo_settings 739517 [demo_txn] = Inr out'"
    using classify_cc_rows_ok [of "[demo_txn]" demo_settings 739517] classify_cc_row_ok [OF d]
    by auto
  from is_overdue_iff [OF o _ n] is_overdue_iff [OF o' _ n] d o o' n show ?thesis
    by auto
qed













subsection \<open>Matching\<close>

text \<open>
  C2: on two frames with the documented columns the primary join renames \<open>email\<close> to
  \<open>email_st\<close> and \<open>email_r\<close>, the selection of line 149 finds no \<open>email\<close>, and
  the call raises \<open>KeyError\<close>: no match record is returned for any charge.
\<close>

theorem build_matches_documented:
  "primary_match (add_label ''status'' STRIPE_COLUMNS) (norm_rms RMS_COLUMNS) =
     Inr [''charge_id'', ''payment_intent'', ''invoice_no'', ''email_st'', ''amount'',
          ''currency_st'', ''created'', ''status'', ''rms_id'', ''email_r'', ''amount_inr'',
          ''currency_r'', ''posted_at'', ''match_type''] \<and>
   unmatched
     [''charge_id'', ''payment_intent'', ''invoice_no'', ''email_st'', ''amount'',
      ''currency_st'', ''created'', ''status'', ''rms_id'', ''email_r'', ''amount_inr'',
      ''currency_r'', ''posted_at'', ''match_type''] = Inl KeyError \<and>
   build_matches STRIPE_COLUMNS RMS_COLUMNS = Inl KeyError"
  by code_simp

text \<open>
  C4: on the two frames of the module's own example the call raises \<open>KeyError\<close> at
  line 149 in the same way, so the loop of lines 215 to 227 is not reached and no
  \<open>AmountMismatch\<close> flag is raised.
\<close>

theorem build_matches_example:
  "primary_match EXAMPLE_STRIPE_COLUMNS (norm_rms EXAMPLE_RMS_COLUMNS) =
     Inr [''charge_id'', ''invoice_no'', ''email_st'', ''amount'', ''currency'', ''created'',
          ''status'', ''rms_id'', ''email_r'', ''amount_inr'', ''posted_at'', ''match_type''] \<and>
   unmatched
     [''charge_id'', ''invoice_no'', ''email_st'', ''amount'', ''currency'', ''created'',
      ''status'', ''rms_id'', ''email_r'', ''amount_inr'', ''posted_at'', ''match_type''] =
     Inl KeyError \<and>
   build_matches EXAMPLE_STRIPE_COLUMNS EXAMPLE_RMS_COLUMNS = Inl KeyError"
  by code_simp

end
